theory Spec2Isabelle
  imports Main "HOL-Library.AList"
begin

section \<open>Clinical guidelines service: a shallow embedding of \<open>services/guidelines_service.py\<close>\<close>

text \<open>
  Python strings are modelled as \<open>string\<close> (lists of 8-bit characters). The service
  compares path segments and file suffixes with ASCII literals only, so the ASCII view of
  \<open>str.lower\<close> decides every comparison the code makes: no character outside
  \<open>A..Z\<close> lower-cases to a letter occurring in a specialty name or in \<open>.pdf\<close>/\<open>.txt\<close>.
\<close>

subsection \<open>String helpers (\<open>str.lower\<close>, \<open>str.split\<close>, \<open>str.join\<close>, \<open>str.endswith\<close>)\<close>

definition lower_char :: "char \<Rightarrow> char" where
  "lower_char c =
     (case map_of (zip ''ABCDEFGHIJKLMNOPQRSTUVWXYZ'' ''abcdefghijklmnopqrstuvwxyz'') c of
        Some d \<Rightarrow> d
      | None \<Rightarrow> c)"

definition lower :: "string \<Rightarrow> string" where
  "lower s = map lower_char s"

text \<open>\<open>s.split(sep)\<close> for a one-character separator: always at least one field.\<close>

fun split_sep :: "char \<Rightarrow> string \<Rightarrow> string list" where
  "split_sep sep [] = [[]]"
| "split_sep sep (c # cs) =
     (if c = sep then [] # split_sep sep cs
      else (case split_sep sep cs of
              [] \<Rightarrow> [[c]]
            | w # ws \<Rightarrow> (c # w) # ws))"

text \<open>\<open>sep.join(xs)\<close>.\<close>

fun join :: "string \<Rightarrow> string list \<Rightarrow> string" where
  "join sep [] = []"
| "join sep [x] = x"
| "join sep (x # y # ys) = x @ sep @ join sep (y # ys)"

text \<open>\<open>s.endswith(suf)\<close> and \<open>s.endswith((a, b))\<close> with a tuple of suffixes.\<close>

definition endswith :: "string \<Rightarrow> string \<Rightarrow> bool" where
  "endswith s suf \<longleftrightarrow>
     length suf \<le> length s \<and> drop (length s - length suf) s = suf"

definition endswith_any :: "string \<Rightarrow> string list \<Rightarrow> bool" where
  "endswith_any s sufs \<longleftrightarrow> list_ex (endswith s) sufs"

subsection \<open>\<open>pathlib\<close> and \<open>os.path\<close> on POSIX paths\<close>

text \<open>
  \<open>posixpath.splitroot\<close>: the root is \<open>/\<close> for one or at least three leading slashes,
  \<open>//\<close> for exactly two, and empty for a relative path.
\<close>

definition splitroot :: "string \<Rightarrow> string \<times> string" where
  "splitroot p =
     (if take 1 p \<noteq> ''/'' then ([], p)
      else if take 1 (drop 1 p) = ''/'' \<and> take 1 (drop 2 p) \<noteq> ''/'' then (take 2 p, drop 2 p)
      else (''/'', drop 1 p))"

text \<open>
  \<open>Path(p).parts\<close>: the root, if any, followed by the segments between slashes, with
  empty segments and \<open>.\<close> dropped.
\<close>

definition path_tail :: "string \<Rightarrow> string list" where
  "path_tail p = filter (\<lambda>x. x \<noteq> [] \<and> x \<noteq> ''.'') (split_sep CHR ''/'' (snd (splitroot p)))"

definition path_parts :: "string \<Rightarrow> string list" where
  "path_parts p =
     (let root = fst (splitroot p); tail = path_tail p
      in if root \<noteq> [] then root # tail else tail)"

text \<open>\<open>Path(p).name\<close>: the final segment, or the empty string when there is none.\<close>

definition path_name :: "string \<Rightarrow> string" where
  "path_name p = (case path_tail p of [] \<Rightarrow> [] | t # ts \<Rightarrow> last (t # ts))"

text \<open>\<open>s.rfind('.')\<close>: the index of the last dot, \<open>None\<close> for Python's \<open>-1\<close>.\<close>

fun rfind_dot :: "string \<Rightarrow> nat option" where
  "rfind_dot [] = None"
| "rfind_dot (c # cs) =
     (case rfind_dot cs of
        Some i \<Rightarrow> Some (Suc i)
      | None \<Rightarrow> (if c = CHR ''.'' then Some 0 else None))"

text \<open>
  \<open>Path(p).suffix\<close>: \<open>name[i:]\<close> for the last dot at index \<open>i\<close> when
  \<open>0 < i < len(name) - 1\<close>, else the empty string.
\<close>

definition path_suffix :: "string \<Rightarrow> string" where
  "path_suffix p =
     (let name = path_name p
      in case rfind_dot name of
           None \<Rightarrow> []
         | Some i \<Rightarrow> (if 0 < i \<and> i + 1 < length name then drop i name else []))"

text \<open>\<open>os.path.join(a, b)\<close>.\<close>

definition os_path_join :: "string \<Rightarrow> string \<Rightarrow> string" where
  "os_path_join a b =
     (if take 1 b = ''/'' then b
      else if a = [] \<or> endswith a ''/'' then a @ b
      else a @ ''/'' @ b)"

subsection \<open>Specialty detection (\<open>_get_specialty_from_path\<close>)\<close>

definition specialties :: "string list" where
  "specialties =
     [''cardiology'', ''neurology'', ''surgery'', ''pediatrics'',
      ''oncology'', ''emergency'', ''general'', ''infectious'',
      ''pulmonary'', ''respiratory'', ''icu'', ''critical'']"

text \<open>The \<open>for part in Path(filepath).parts\<close> loop, returning at the first match.\<close>

fun scan_parts :: "string list \<Rightarrow> string" where
  "scan_parts [] = ''general''"
| "scan_parts (part # rest) =
     (if lower part \<in> set specialties then lower part else scan_parts rest)"

definition get_specialty_from_path :: "string \<Rightarrow> string" where
  "get_specialty_from_path filepath = scan_parts (path_parts filepath)"

section \<open>Data model\<close>

text \<open>
  Values stored in the dynamically typed dictionaries the service reads (document
  metadata, the patient context): \<open>None\<close>, integers, strings and lists.
\<close>

datatype pyval = PNone | PInt int | is_PStr: PStr string | PList "pyval list"

text \<open>A \<open>dict\<close> with string keys, in insertion order.\<close>

type_synonym pydict = "(string \<times> pyval) list"

text \<open>\<open>d.get(key, default)\<close>: a key stored with value \<open>None\<close> yields \<open>None\<close>, not the default.\<close>

definition dict_get :: "pydict \<Rightarrow> string \<Rightarrow> pyval \<Rightarrow> pyval" where
  "dict_get d key dflt = (case map_of d key of None \<Rightarrow> dflt | Some v \<Rightarrow> v)"


text \<open>
  An instance of (a subclass of) Python's \<open>Exception\<close>, with its description. Whatever a
  library call or an operator raises is a value of this type; a computation that can
  raise returns \<open>py_exception + 'a\<close>, with \<open>Inl\<close> for the raise.
\<close>

datatype py_exception = Exception string

text \<open>A LangChain \<open>Document\<close>.\<close>

record document =
  page_content :: string
  metadata :: pydict

text \<open>The embeddings object: \<open>HuggingFaceEmbeddings(model_name, device)\<close>.\<close>

datatype embeddings = HuggingFaceEmbeddings string string

text \<open>
  The \<open>Chroma\<close> vector store: the embedding function and directory it was created with,
  and the entries of its collection.
\<close>

record vectorstore =
  embedding_function :: "embeddings option"
  persist_directory :: string
  collection :: "document list"

text \<open>The two document loaders, each holding the path it was created with.\<close>

datatype loader = PyPDFLoader string | TextLoader string

text \<open>
  The third-party libraries and the Python runtime, taken as parameters: constructing the
  embedding model, \<open>loader.load()\<close>, \<open>split_documents\<close> of a
  \<open>RecursiveCharacterTextSplitter(chunk_size, chunk_overlap)\<close>,
  \<open>similarity_search(query, k, filter)\<close> of a store, \<open>len(store)\<close>, and \<open>str(v)\<close> as
  used by f-strings. A \<open>Chroma\<close> object defines \<open>__len__\<close> as the count of its collection
  and no \<open>__bool__\<close>, so its truth value is computed by \<open>len(store)\<close>: a call into
  the library, which can raise like any other.
\<close>

record externals =
  new_embeddings :: "string \<Rightarrow> string \<Rightarrow> py_exception + embeddings"
  loader_load :: "loader \<Rightarrow> py_exception + document list"
  split_documents :: "nat \<Rightarrow> nat \<Rightarrow> document list \<Rightarrow> document list"
  similarity_search ::
    "vectorstore \<Rightarrow> string \<Rightarrow> int \<Rightarrow> (string \<times> string) list option \<Rightarrow> py_exception + document list"
  store_len :: "vectorstore \<Rightarrow> py_exception + nat"
  py_str :: "pyval \<Rightarrow> string"

text \<open>
  The part of the file system the service touches: the tree under \<open>guidelines_dir\<close>
  (\<open>None\<close> when the directory does not exist) and the index persisted at
  \<open>vector_store_path\<close> (\<open>None\<close> when that path does not exist).
\<close>

datatype node = File string | Dir string "node list"

record filesystem =
  guidelines_tree :: "node list option"
  persisted_index :: "document list option"

text \<open>The fields of a \<open>GuidelinesService\<close> object.\<close>

record guidelines_service =
  embeddings :: "embeddings option"
  vectorstore :: "vectorstore option"
  initialized :: bool
  rag_available :: bool
  guidelines_dir :: string
  vector_store_path :: string

text \<open>\<open>__init__\<close>; the argument is the module-level \<open>RAG_AVAILABLE\<close>.\<close>

definition init_service :: "bool \<Rightarrow> guidelines_service" where
  "init_service rag =
     \<lparr>embeddings = None, vectorstore = None, initialized = False, rag_available = rag,
      guidelines_dir = ''data/guidelines'', vector_store_path = ''./vector_store_guidelines''\<rparr>"

text \<open>One entry of a \<open>search_guidelines\<close> result list.\<close>

record guideline =
  content :: string
  source :: pyval
  page :: pyval
  specialty :: pyval

text \<open>The dictionary returned by \<open>get_statistics\<close>.\<close>

datatype statistics =
  StatsEmpty
| StatsActive (total_documents: nat) (stat_specialties: "string list")
    (by_specialty: "(string \<times> nat) list")

section \<open>Directory traversal\<close>

definition node_name :: "node \<Rightarrow> string" where
  "node_name n = (case n of File f \<Rightarrow> f | Dir d sub \<Rightarrow> d)"

text \<open>
  \<open>Path(root).rglob("*")\<close>: every entry below \<open>root\<close>, files and directories alike, as
  path strings: the entries of a directory first, then those of its subdirectories.
\<close>

fun rglob :: "string \<Rightarrow> node list \<Rightarrow> string list"
  and rglob_sub :: "string \<Rightarrow> node list \<Rightarrow> string list" where
  "rglob root ns = map (\<lambda>n. os_path_join root (node_name n)) ns @ rglob_sub root ns"
| "rglob_sub root [] = []"
| "rglob_sub root (File f # ns) = rglob_sub root ns"
| "rglob_sub root (Dir d sub # ns) = rglob (os_path_join root d) sub @ rglob_sub root ns"

text \<open>
  \<open>os.walk(root)\<close>, top-down: for each directory its path and the names of the
  non-directory entries in it (the list of subdirectory names is not used by the caller).
\<close>

fun os_walk :: "string \<Rightarrow> node list \<Rightarrow> (string \<times> string list) list"
  and os_walk_sub :: "string \<Rightarrow> node list \<Rightarrow> (string \<times> string list) list" where
  "os_walk root ns =
     (root, concat (map (\<lambda>n. case n of File f \<Rightarrow> [f] | Dir d sub \<Rightarrow> []) ns)) # os_walk_sub root ns"
| "os_walk_sub root [] = []"
| "os_walk_sub root (File f # ns) = os_walk_sub root ns"
| "os_walk_sub root (Dir d sub # ns) = os_walk (os_path_join root d) sub @ os_walk_sub root ns"

section \<open>The service\<close>

text \<open>
  A method that mutates the service or the file system returns its outcome (\<open>Inl\<close> for
  an exception that leaves the method) together with the file system and the service as
  they are when the method is left. Console output (\<open>print\<close>) is not modelled.
\<close>

subsection \<open>Loading (\<open>_load_guidelines\<close>)\<close>

text \<open>The choice of loader by \<open>file.suffix.lower()\<close>; \<open>None\<close> is the \<open>continue\<close> branch.\<close>

definition select_loader :: "string \<Rightarrow> loader option" where
  "select_loader file =
     (if lower (path_suffix file) = ''.pdf'' then Some (PyPDFLoader file)
      else if lower (path_suffix file) = ''.txt'' then Some (TextLoader file)
      else None)"

text \<open>The two metadata assignments made for each loaded document.\<close>

definition tag_document :: "string \<Rightarrow> document \<Rightarrow> document" where
  "tag_document file doc =
     doc\<lparr>metadata :=
       AList.update ''specialty'' (PStr (get_specialty_from_path file))
         (AList.update ''source_file'' (PStr (path_name file)) (metadata doc))\<rparr>"

text \<open>
  The loop over \<open>rglob("*")\<close>, with \<open>documents\<close> as accumulator. \<open>loader.load()\<close> is
  called outside any \<open>try\<close>: an exception it raises leaves the loop.
\<close>

fun load_files :: "externals \<Rightarrow> string list \<Rightarrow> document list \<Rightarrow> py_exception + document list" where
  "load_files ext [] documents = Inr documents"
| "load_files ext (file # files) documents =
     (case select_loader file of
        None \<Rightarrow> load_files ext files documents
      | Some ldr \<Rightarrow>
          (case loader_load ext ldr of
             Inl e \<Rightarrow> Inl e
           | Inr docs \<Rightarrow> load_files ext files (documents @ map (tag_document file) docs)))"

text \<open>\<open>Chroma(embedding_function=self.embeddings, persist_directory=self.vector_store_path)\<close>
  holding the given entries.\<close>

definition chroma :: "guidelines_service \<Rightarrow> document list \<Rightarrow> vectorstore" where
  "chroma s docs =
     \<lparr>embedding_function = embeddings s, persist_directory = vector_store_path s,
      collection = docs\<rparr>"

definition load_guidelines ::
  "externals \<Rightarrow> filesystem \<Rightarrow> guidelines_service \<Rightarrow>
     (py_exception + unit) \<times> filesystem \<times> guidelines_service" where
  "load_guidelines ext fs s =
     (let tree = (case guidelines_tree fs of None \<Rightarrow> [] | Some t \<Rightarrow> t);
          fs1 = fs\<lparr>guidelines_tree := Some tree\<rparr>
      in case persisted_index fs1 of
           Some idx \<Rightarrow> (Inr (), fs1, s\<lparr>vectorstore := Some (chroma s idx)\<rparr>)
         | None \<Rightarrow>
             (case load_files ext (rglob (guidelines_dir s) tree) [] of
                Inl e \<Rightarrow> (Inl e, fs1, s)
              | Inr documents \<Rightarrow>
                  if documents = [] then
                    (Inr (), fs1\<lparr>persisted_index := Some []\<rparr>,
                     s\<lparr>vectorstore := Some (chroma s [])\<rparr>)
                  else
                    (let chunks = split_documents ext 800 150 documents
                     in (Inr (), fs1\<lparr>persisted_index := Some chunks\<rparr>,
                         s\<lparr>vectorstore := Some (chroma s chunks)\<rparr>))))"

subsection \<open>Initialization (\<open>initialize\<close>)\<close>

definition initialize ::
  "externals \<Rightarrow> filesystem \<Rightarrow> guidelines_service \<Rightarrow>
     (py_exception + unit) \<times> filesystem \<times> guidelines_service" where
  "initialize ext fs s =
     (if initialized s then (Inr (), fs, s)
      else if \<not> rag_available s then (Inr (), fs, s\<lparr>initialized := True\<rparr>)
      else
        (case new_embeddings ext ''sentence-transformers/all-MiniLM-L6-v2'' ''cpu'' of
           Inl e \<Rightarrow> (Inl e, fs, s)
         | Inr emb \<Rightarrow>
             (case load_guidelines ext fs (s\<lparr>embeddings := Some emb\<rparr>) of
                (Inl e, fs', s') \<Rightarrow> (Inl e, fs', s')
              | (Inr u, fs', s') \<Rightarrow> (Inr (), fs', s'\<lparr>initialized := True\<rparr>))))"

subsection \<open>Search (\<open>search_guidelines\<close>)\<close>

text \<open>
  \<open>not self.vectorstore\<close>: true for \<open>None\<close>; for a store object the test calls
  \<open>len(store)\<close> and is true when the length is zero. An exception of that call leaves
  the test.
\<close>

definition no_vectorstore :: "externals \<Rightarrow> guidelines_service \<Rightarrow> py_exception + bool" where
  "no_vectorstore ext s =
     (case vectorstore s of
        None \<Rightarrow> Inr True
      | Some vs \<Rightarrow>
          (case store_len ext vs of
             Inl e \<Rightarrow> Inl e
           | Inr n \<Rightarrow> Inr (n = 0)))"

text \<open>The dictionary built for one result document.\<close>

definition to_guideline :: "document \<Rightarrow> guideline" where
  "to_guideline d =
     \<lparr>content = page_content d,
      source = dict_get (metadata d) ''source_file'' PNone,
      page = dict_get (metadata d) ''page'' (PStr ''N/A''),
      specialty = dict_get (metadata d) ''specialty'' (PStr ''general'')\<rparr>"

text \<open>
  The body of the \<open>try\<close> block of \<open>search_guidelines\<close>. \<open>filter_specialty\<close> is \<open>None\<close> or a string; the empty
  string is as false as \<open>None\<close>.
\<close>

definition search_body ::
  "externals \<Rightarrow> vectorstore \<Rightarrow> string \<Rightarrow> int \<Rightarrow> string option \<Rightarrow> py_exception + guideline list" where
  "search_body ext vs query k filter_specialty =
     (let found =
        (case filter_specialty of
           None \<Rightarrow> similarity_search ext vs query k None
         | Some sp \<Rightarrow>
             if sp = [] then similarity_search ext vs query k None
             else
               (case similarity_search ext vs query k (Some [(''specialty'', sp)]) of
                  Inl e \<Rightarrow> Inl e
                | Inr results \<Rightarrow>
                    if results = [] then similarity_search ext vs query k None
                    else Inr results))
      in case found of
           Inl e \<Rightarrow> Inl e
         | Inr results \<Rightarrow> Inr (map to_guideline results))"

text \<open>
  The test \<open>if not self.vectorstore\<close> stands before the \<open>try\<close>: what it raises leaves
  the method. What the body of the \<open>try\<close> raises is caught and becomes the empty list.
\<close>

definition search_guidelines ::
  "externals \<Rightarrow> guidelines_service \<Rightarrow> string \<Rightarrow> int \<Rightarrow> string option \<Rightarrow> py_exception + guideline list" where
  "search_guidelines ext s query k filter_specialty =
     (case no_vectorstore ext s of
        Inl e \<Rightarrow> Inl e
      | Inr absent \<Rightarrow>
          if absent then Inr []
          else
            (case vectorstore s of
               None \<Rightarrow> Inr []
             | Some vs \<Rightarrow>
                 (case search_body ext vs query k filter_specialty of
                    Inl e \<Rightarrow> Inr []
                  | Inr gs \<Rightarrow> Inr gs)))"

subsection \<open>Recommendations (\<open>get_protocol_recommendation\<close>)\<close>













subsection \<open>Statistics (\<open>get_statistics\<close>)\<close>

text \<open>\<open>files.setdefault(spec, []).append(f)\<close> on a dictionary kept in insertion order.\<close>

fun setdefault_append ::
  "(string \<times> string list) list \<Rightarrow> string \<Rightarrow> string \<Rightarrow> (string \<times> string list) list" where
  "setdefault_append [] spec f = [(spec, [f])]"
| "setdefault_append ((k, v) # rest) spec f =
     (if k = spec then (k, v @ [f]) # rest else (k, v) # setdefault_append rest spec f)"

text \<open>The inner loop over the file names of one directory.\<close>

fun count_names ::
  "string \<Rightarrow> string list \<Rightarrow> (string \<times> string list) list \<Rightarrow> (string \<times> string list) list" where
  "count_names root [] files = files"
| "count_names root (f # fs) files =
     (if endswith_any f [''.pdf'', ''.txt''] then
        count_names root fs
          (setdefault_append files (get_specialty_from_path (os_path_join root f)) f)
      else count_names root fs files)"

text \<open>The outer loop over \<open>os.walk\<close>.\<close>

fun count_walk ::
  "(string \<times> string list) list \<Rightarrow> (string \<times> string list) list \<Rightarrow> (string \<times> string list) list" where
  "count_walk [] files = files"
| "count_walk ((root, fs) # rest) files = count_walk rest (count_names root fs files)"

definition get_statistics ::
  "externals \<Rightarrow> filesystem \<Rightarrow> guidelines_service \<Rightarrow> py_exception + statistics" where
  "get_statistics ext fs s =
     (case no_vectorstore ext s of
        Inl e \<Rightarrow> Inl e
      | Inr absent \<Rightarrow>
          if absent then Inr StatsEmpty
          else
            (let walk = (case guidelines_tree fs of
                           None \<Rightarrow> []
                         | Some tree \<Rightarrow> os_walk (guidelines_dir s) tree);
                 files = count_walk walk []
             in Inr (StatsActive (sum_list (map (\<lambda>(k, v). length v) files)) (map fst files)
                       (map (\<lambda>(k, v). (k, length v)) files))))"

text \<open>
  The files \<open>get_statistics\<close> is claimed to count, written after the claim and not after
  the loops: the names met by \<open>os.walk\<close> that end in exactly \<open>.pdf\<close> or \<open>.txt\<close>, in
  the order of the walk, each with the specialty inferred from its joined path.
\<close>

definition counted_names :: "(string \<times> string list) list \<Rightarrow> (string \<times> string) list" where
  "counted_names walk =
     concat (map (\<lambda>(root, fs).
       map (\<lambda>f. (get_specialty_from_path (os_path_join root f), f))
         (filter (\<lambda>f. endswith f ''.pdf'' \<or> endswith f ''.txt'') fs)) walk)"

text \<open>The number of names a dictionary of the statistics loop holds under a key.\<close>

definition entries_of :: "(string \<times> string list) list \<Rightarrow> string \<Rightarrow> nat" where
  "entries_of files k = (case map_of files k of None \<Rightarrow> 0 | Some v \<Rightarrow> length v)"

section \<open>A concrete instance of the libraries\<close>

text \<open>
  A small, executable stand-in for the libraries, used to run the service on concrete
  inputs: the PDF loader rejects a file named \<open>broken.pdf\<close> and otherwise yields one
  page, the text loader yields one document, the splitter keeps documents whole, and the
  search returns the first \<open>k\<close> entries whose metadata match the filter. The length of
  a store is the number of entries of its collection.
\<close>

definition demo_load :: "loader \<Rightarrow> py_exception + document list" where
  "demo_load ldr =
     (case ldr of
        PyPDFLoader p \<Rightarrow>
          if path_name p = ''broken.pdf'' then Inl (Exception ''malformed PDF'')
          else Inr [\<lparr>page_content = ''administer aspirin for chest pain'',
                     metadata = [(''source'', PStr p), (''page'', PInt 0)]\<rparr>]
      | TextLoader p \<Rightarrow>
          Inr [\<lparr>page_content = ''check vital signs routinely'',
                 metadata = [(''source'', PStr p)]\<rparr>])"

definition demo_matches :: "(string \<times> string) list option \<Rightarrow> document \<Rightarrow> bool" where
  "demo_matches flt d =
     (case flt of
        None \<Rightarrow> True
      | Some kvs \<Rightarrow> list_all (\<lambda>(key, v). map_of (metadata d) key = Some (PStr v)) kvs)"

definition demo_search ::
  "vectorstore \<Rightarrow> string \<Rightarrow> int \<Rightarrow> (string \<times> string) list option \<Rightarrow> py_exception + document list" where
  "demo_search vs q k flt = Inr (take (nat k) (filter (demo_matches flt) (collection vs)))"

fun nat_str :: "nat \<Rightarrow> string" where
  "nat_str n =
     (if n < 10 then [''0123456789'' ! n]
      else nat_str (n div 10) @ [''0123456789'' ! (n mod 10)])"

fun demo_str :: "pyval \<Rightarrow> string" where
  "demo_str PNone = ''None''"
| "demo_str (PInt n) = (if n < 0 then ''-'' @ nat_str (nat (- n)) else nat_str (nat n))"
| "demo_str (PStr x) = x"
| "demo_str (PList xs) =
     ''['' @ join '', ''
        (map (\<lambda>v. if is_PStr v then [CHR 0x27] @ demo_str v @ [CHR 0x27] else demo_str v) xs)
       @ '']''"

definition demo_externals :: externals where
  "demo_externals =
     \<lparr>new_embeddings = (\<lambda>model device. Inr (HuggingFaceEmbeddings model device)),
      loader_load = demo_load,
      split_documents = (\<lambda>chunk_size chunk_overlap docs. docs),
      similarity_search = demo_search,
      store_len = (\<lambda>vs. Inr (length (collection vs))),
      py_str = demo_str\<rparr>"

text \<open>The same libraries with an index whose every query raises.\<close>

definition failing_search_externals :: externals where
  "failing_search_externals =
     demo_externals\<lparr>similarity_search := (\<lambda>vs q k flt. Inl (Exception ''index unavailable''))\<rparr>"

text \<open>The same libraries with a collection that can no longer be counted.\<close>

definition broken_count_externals :: externals where
  "broken_count_externals =
     demo_externals\<lparr>store_len := (\<lambda>vs. Inl (Exception ''InvalidCollectionException''))\<rparr>"

text \<open>Libraries of which every call raises.\<close>

definition hostile_externals :: externals where
  "hostile_externals =
     \<lparr>new_embeddings = (\<lambda>model device. Inl (Exception ''no model'')),
      loader_load = (\<lambda>ldr. Inl (Exception ''unreadable'')),
      split_documents = (\<lambda>chunk_size chunk_overlap docs. []),
      similarity_search = (\<lambda>vs q k flt. Inl (Exception ''index unavailable'')),
      store_len = (\<lambda>vs. Inl (Exception ''InvalidCollectionException'')),
      py_str = demo_str\<rparr>"

text \<open>Concrete states for running the service: documents, a store, a loaded service, a file system.\<close>

definition demo_embeddings :: embeddings where
  "demo_embeddings = HuggingFaceEmbeddings ''sentence-transformers/all-MiniLM-L6-v2'' ''cpu''"

definition general_doc :: document where
  "general_doc =
     \<lparr>page_content = ''check vital signs routinely'',
      metadata = [(''source'', PStr ''data/guidelines/general/vitals.txt''),
                  (''source_file'', PStr ''vitals.txt''), (''specialty'', PStr ''general'')]\<rparr>"

definition upper_doc :: document where
  "upper_doc =
     \<lparr>page_content = ''check vital signs routinely'',
      metadata = [(''source'', PStr ''data/guidelines/GUIDE.TXT''),
                  (''source_file'', PStr ''GUIDE.TXT''), (''specialty'', PStr ''general'')]\<rparr>"

definition lower_doc :: document where
  "lower_doc =
     \<lparr>page_content = ''check vital signs routinely'',
      metadata = [(''source'', PStr ''data/guidelines/guide.txt''),
                  (''source_file'', PStr ''guide.txt''), (''specialty'', PStr ''general'')]\<rparr>"

text \<open>An index entry stored without any metadata, as another tool may have written it.\<close>

definition untagged_doc :: document where
  "untagged_doc = \<lparr>page_content = ''administer aspirin for chest pain'', metadata = []\<rparr>"

definition demo_store :: "document list \<Rightarrow> vectorstore" where
  "demo_store docs =
     \<lparr>embedding_function = Some demo_embeddings,
      persist_directory = ''./vector_store_guidelines'', collection = docs\<rparr>"

definition loaded_service :: "document list \<Rightarrow> guidelines_service" where
  "loaded_service docs =
     (init_service True)\<lparr>embeddings := Some demo_embeddings,
       vectorstore := Some (demo_store docs), initialized := True\<rparr>"

definition demo_fs :: "node list \<Rightarrow> document list option \<Rightarrow> filesystem" where
  "demo_fs tree idx = \<lparr>guidelines_tree = Some tree, persisted_index = idx\<rparr>"

section \<open>Evaluation rules\<close>

lemmas demo_defs = demo_externals_def demo_search_def demo_matches_def demo_load_def
  loaded_service_def demo_store_def init_service_def general_doc_def untagged_doc_def
  upper_doc_def lower_doc_def demo_embeddings_def demo_fs_def failing_search_externals_def
  broken_count_externals_def hostile_externals_def

lemmas path_defs = select_loader_def path_suffix_def path_name_def path_tail_def splitroot_def
  os_path_join_def endswith_def node_name_def lower_def lower_char_def
  tag_document_def get_specialty_from_path_def path_parts_def specialties_def

lemma demo_new_embeddings:
  "new_embeddings demo_externals ''sentence-transformers/all-MiniLM-L6-v2'' ''cpu'' =
     Inr demo_embeddings"
  by (simp add: demo_externals_def demo_embeddings_def)

lemma fresh_service_flags:
  "\<not> initialized (init_service rag)" "rag_available (init_service rag) = rag"
  "vectorstore (init_service rag) = None"
  by (simp_all add: init_service_def)

text \<open>Building the index from a tree with one text file under \<open>general/\<close>.\<close>

lemma demo_initialize:
  "initialize demo_externals (demo_fs [Dir ''general'' [File ''vitals.txt'']] None) (init_service True) =
     (Inr (), demo_fs [Dir ''general'' [File ''vitals.txt'']] (Some [general_doc]),
      loaded_service [general_doc])"
  by (simp add: initialize_def load_guidelines_def Let_def demo_defs chroma_def path_defs)


text \<open>Building the index from a tree whose first file the PDF loader rejects.\<close>

lemma broken_initialize:
  "initialize demo_externals (demo_fs [File ''broken.pdf'', File ''ok.txt''] None) (init_service True) =
     (Inl (Exception ''malformed PDF''), demo_fs [File ''broken.pdf'', File ''ok.txt''] None,
      (init_service True)\<lparr>embeddings := Some demo_embeddings\<rparr>)"
  by (simp add: initialize_def load_guidelines_def Let_def demo_defs chroma_def path_defs)

text \<open>Building the index from a tree with one file named in upper case.\<close>

lemma upper_initialize:
  "initialize demo_externals (demo_fs [File ''GUIDE.TXT''] None) (init_service True) =
     (Inr (), demo_fs [File ''GUIDE.TXT''] (Some [upper_doc]), loaded_service [upper_doc])"
  by (simp add: initialize_def load_guidelines_def Let_def demo_defs chroma_def path_defs)

section \<open>Specialty inference\<close>

lemma scan_parts_closed: "scan_parts ps \<in> set specialties"
  by (induction ps) (simp_all add: specialties_def)

lemma scan_parts_find:
  "scan_parts ps =
     (case find (\<lambda>part. lower part \<in> set specialties) ps of
        None \<Rightarrow> ''general''
      | Some part \<Rightarrow> lower part)"
  by (induction ps) simp_all

text \<open>
  C3. For every path string, specialty inference returns a tag of the closed specialty
  set; the tag is the lower-cased first segment of the path (in the order of
  \<open>Path(p).parts\<close>) whose lower-cased form is a specialty, and \<open>general\<close> when no
  segment matches. The result is a function of the path string alone.
\<close>

theorem specialty_inference:
  "get_specialty_from_path p \<in> set specialties \<and>
   get_specialty_from_path p =
     (case find (\<lambda>part. lower part \<in> set specialties) (path_parts p) of
        None \<Rightarrow> ''general''
      | Some part \<Rightarrow> lower part)"
  unfolding get_specialty_from_path_def
  using scan_parts_closed [of "path_parts p"] scan_parts_find [of "path_parts p"] by simp

theorem specialty_inference_witness:
  "path_parts ''data/guidelines/ICU/Cardiology/a.txt'' =
     [''data'', ''guidelines'', ''ICU'', ''Cardiology'', ''a.txt''] \<and>
   get_specialty_from_path ''data/guidelines/ICU/Cardiology/a.txt'' = ''icu'' \<and>
   get_specialty_from_path ''data/guidelines/ICU/Cardiology/a.txt'' \<in> set specialties"
proof -
  have h: "path_parts ''data/guidelines/ICU/Cardiology/a.txt'' =
     [''data'', ''guidelines'', ''ICU'', ''Cardiology'', ''a.txt'']"
    by (simp add: path_parts_def path_tail_def splitroot_def)
  have l: "lower ''data'' = ''data''" "lower ''guidelines'' = ''guidelines''"
    "lower ''ICU'' = ''icu''"
    by (simp_all add: lower_def lower_char_def)
  have "get_specialty_from_path ''data/guidelines/ICU/Cardiology/a.txt'' = ''icu''"
    using specialty_inference [of "''data/guidelines/ICU/Cardiology/a.txt''"]
    by (simp add: h l specialties_def)
  moreover have "''icu'' \<in> set specialties" by (simp add: specialties_def)
  ultimately show ?thesis using h by simp
qed

section \<open>Search\<close>

text \<open>
  C1. Filter fallback: for every query, every \<open>k\<close> and every specialty, when the
  similarity search filtered by that specialty returns no result, \<open>search_guidelines\<close>
  with the specialty returns what \<open>search_guidelines\<close> without a specialty returns.
\<close>

theorem filter_fallback:
  assumes "vectorstore s = Some vs"
    and "similarity_search ext vs q k (Some [(''specialty'', sp)]) = Inr []"
  shows "search_guidelines ext s q k (Some sp) = search_guidelines ext s q k None"
proof -
  have "search_body ext vs q k (Some sp) = search_body ext vs q k None"
    using assms(2) by (simp add: search_body_def)
  with assms(1) show ?thesis by (simp add: search_guidelines_def split: sum.split)
qed

theorem filter_fallback_witness:
  "similarity_search demo_externals (demo_store [general_doc]) ''chest pain'' 3
      (Some [(''specialty'', ''cardiology'')]) = Inr [] \<and>
   search_guidelines demo_externals (loaded_service [general_doc]) ''chest pain'' 3
      (Some ''cardiology'') =
   search_guidelines demo_externals (loaded_service [general_doc]) ''chest pain'' 3 None \<and>
   search_guidelines demo_externals (loaded_service [general_doc]) ''chest pain'' 3 None =
     Inr [\<lparr>content = ''check vital signs routinely'', source = PStr ''vitals.txt'',
           page = PStr ''N/A'', specialty = PStr ''general''\<rparr>]"
proof -
  have h1: "vectorstore (loaded_service [general_doc]) = Some (demo_store [general_doc])"
    by (simp add: loaded_service_def)
  have h2: "similarity_search demo_externals (demo_store [general_doc]) ''chest pain'' 3
      (Some [(''specialty'', ''cardiology'')]) = Inr []"
    by (simp add: demo_defs)
  have h3: "search_guidelines demo_externals (loaded_service [general_doc]) ''chest pain'' 3 None =
     Inr [\<lparr>content = ''check vital signs routinely'', source = PStr ''vitals.txt'',
           page = PStr ''N/A'', specialty = PStr ''general''\<rparr>]"
    by (simp add: demo_defs search_guidelines_def search_body_def no_vectorstore_def
        to_guideline_def dict_get_def)
  from filter_fallback [OF h1 h2] h2 h3 show ?thesis by simp
qed

text \<open>
  What the \<open>try\<close> block absorbs: once the truth test of the store has returned,
  \<open>search_guidelines\<close> returns a list, and the list is empty whenever the index query
  that is run raises, be it the unfiltered query, the filtered query, or the unfiltered
  retry after an empty filtered result. Without a store the list is empty as well.
\<close>

lemma search_absorbs_query_failures:
  "(no_vectorstore ext s = Inr absent \<longrightarrow> (\<exists>gs. search_guidelines ext s q k f = Inr gs)) \<and>
   (vectorstore s = None \<longrightarrow> search_guidelines ext s q k f = Inr []) \<and>
   (\<forall>vs n e. vectorstore s = Some vs \<and> store_len ext vs = Inr n \<and>
      similarity_search ext vs q k None = Inl e \<longrightarrow>
      search_guidelines ext s q k None = Inr []) \<and>
   (\<forall>vs n e sp. vectorstore s = Some vs \<and> store_len ext vs = Inr n \<and>
      similarity_search ext vs q k (Some [(''specialty'', sp)]) = Inl e \<and> sp \<noteq> [] \<longrightarrow>
      search_guidelines ext s q k (Some sp) = Inr []) \<and>
   (\<forall>vs n e sp. vectorstore s = Some vs \<and> store_len ext vs = Inr n \<and>
      similarity_search ext vs q k (Some [(''specialty'', sp)]) = Inr [] \<and>
      similarity_search ext vs q k None = Inl e \<longrightarrow>
      search_guidelines ext s q k (Some sp) = Inr [])"
  by (auto simp add: search_guidelines_def search_body_def no_vectorstore_def
      split: option.split sum.split)

text \<open>The truth test is not absorbed: what \<open>len(store)\<close> raises leaves the method.\<close>

lemma search_propagates_truth_test:
  assumes "vectorstore s = Some vs" and "store_len ext vs = Inl e"
  shows "search_guidelines ext s q k f = Inl e"
  using assms by (simp add: search_guidelines_def no_vectorstore_def)

text \<open>
  C2. The claim asks that \<open>search_guidelines\<close> never raise. The test
  \<open>if not self.vectorstore\<close> stands before the \<open>try\<close> and calls \<open>len(store)\<close>: on a
  store whose collection can no longer be counted the call leaves with that exception,
  although the store holds an entry and the query itself would answer.
\<close>

theorem search_raises_from_truth_test:
  "similarity_search broken_count_externals (demo_store [general_doc]) ''chest pain'' 3 None =
     Inr [general_doc] \<and>
   search_guidelines broken_count_externals (loaded_service [general_doc]) ''chest pain'' 3 None =
     Inl (Exception ''InvalidCollectionException'')"
  by (simp add: demo_defs search_guidelines_def no_vectorstore_def)

section \<open>Initialization\<close>

text \<open>
  C4. When the embedding and indexing libraries are unavailable (\<open>rag_available\<close> is
  false, so no vector store was ever set), \<open>initialize\<close> completes without an
  exception, the \<open>initialized\<close> flag becomes true, the service stays in that degraded
  state, and every search on it returns the empty list.
\<close>

theorem degraded_mode:
  assumes "\<not> rag_available s" and "vectorstore s = None"
  shows "\<exists>s'. initialize ext fs s = (Inr (), fs, s') \<and> initialized s' \<and>
           \<not> rag_available s' \<and> vectorstore s' = None \<and>
           search_guidelines ext s' q k f = Inr []"
  using assms by (simp add: initialize_def search_guidelines_def no_vectorstore_def)

theorem degraded_mode_witness:
  "initialize demo_externals (demo_fs [File ''vitals.txt''] None) (init_service False) =
     (Inr (), demo_fs [File ''vitals.txt''] None, (init_service False)\<lparr>initialized := True\<rparr>) \<and>
   search_guidelines demo_externals ((init_service False)\<lparr>initialized := True\<rparr>)
     ''chest pain'' 3 (Some ''cardiology'') = Inr []"
proof -
  have h1: "\<not> rag_available (init_service False)" by (simp add: fresh_service_flags)
  have h2: "vectorstore (init_service False) = None" by (simp add: fresh_service_flags)
  have h3: "initialize demo_externals (demo_fs [File ''vitals.txt''] None) (init_service False) =
     (Inr (), demo_fs [File ''vitals.txt''] None, (init_service False)\<lparr>initialized := True\<rparr>)"
    by (simp add: initialize_def init_service_def)
  from degraded_mode [OF h1 h2, of demo_externals "demo_fs [File ''vitals.txt''] None"
      "''chest pain''" 3 "Some ''cardiology''"] h3
  show ?thesis by auto
qed

text \<open>
  C6. Persistence precedence: when an index is already persisted at the vector-store
  path, initializing a fresh service loads exactly the persisted entries into the store,
  whatever files the guideline directory holds; no loader is run and the persisted index
  is left as it was.
\<close>

theorem persistence_precedence:
  assumes "persisted_index fs = Some idx"
    and "\<not> initialized s" and "rag_available s"
    and "new_embeddings ext ''sentence-transformers/all-MiniLM-L6-v2'' ''cpu'' = Inr emb"
  shows "initialize ext fs s =
           (Inr (),
            fs\<lparr>guidelines_tree := Some (case guidelines_tree fs of None \<Rightarrow> [] | Some t \<Rightarrow> t)\<rparr>,
            s\<lparr>embeddings := Some emb,
              vectorstore := Some \<lparr>embedding_function = Some emb,
                                   persist_directory = vector_store_path s,
                                   collection = idx\<rparr>,
              initialized := True\<rparr>)"
  using assms by (simp add: initialize_def load_guidelines_def chroma_def Let_def)

theorem persistence_precedence_witness:
  "initialize demo_externals
     (demo_fs [File ''a.txt'', File ''b.txt''] (Some [general_doc])) (init_service True) =
   (Inr (), demo_fs [File ''a.txt'', File ''b.txt''] (Some [general_doc]),
    loaded_service [general_doc])"
proof -
  have h1: "persisted_index (demo_fs [File ''a.txt'', File ''b.txt''] (Some [general_doc])) =
      Some [general_doc]"
    by (simp add: demo_fs_def)
  have h2: "\<not> initialized (init_service True)" by (simp add: fresh_service_flags)
  have h3: "rag_available (init_service True)" by (simp add: fresh_service_flags)
  from persistence_precedence [OF h1 h2 h3 demo_new_embeddings] show ?thesis
    by (simp add: demo_fs_def loaded_service_def demo_store_def init_service_def)
qed

lemma initialize_sets_flag:
  assumes "initialize ext fs s = (Inr u, fs', s')"
  shows "initialized s'"
  using assms
  by (auto simp add: initialize_def split: if_splits sum.splits prod.splits)

text \<open>
  C7. \<open>initialize\<close> is idempotent: after a call that completed, a second call
  completes as well and changes neither the service nor the file system. It does so
  whatever the libraries would answer and whatever the file system holds by then, so the
  second call constructs no embedding model, reads no file and builds or loads no index.
\<close>

theorem initialize_idempotent:
  assumes "initialize ext fs s = (Inr (), fs', s')"
  shows "initialize ext2 fs2 s' = (Inr (), fs2, s')"
proof -
  have "initialized s'" using assms by (rule initialize_sets_flag)
  then show ?thesis by (simp add: initialize_def)
qed

text \<open>
  After building the index from one text file, a second call returns the same service
  and file system; so does a call made with libraries of which every call raises, on a
  file system holding a file the loader rejects and no persisted index.
\<close>

theorem initialize_idempotent_witness:
  "initialize demo_externals (demo_fs [Dir ''general'' [File ''vitals.txt'']] None)
     (init_service True) =
     (Inr (), demo_fs [Dir ''general'' [File ''vitals.txt'']] (Some [general_doc]),
      loaded_service [general_doc]) \<and>
   initialize demo_externals (demo_fs [Dir ''general'' [File ''vitals.txt'']] (Some [general_doc]))
     (loaded_service [general_doc]) =
     (Inr (), demo_fs [Dir ''general'' [File ''vitals.txt'']] (Some [general_doc]),
      loaded_service [general_doc]) \<and>
   initialize hostile_externals (demo_fs [File ''broken.pdf''] None) (loaded_service [general_doc]) =
     (Inr (), demo_fs [File ''broken.pdf''] None, loaded_service [general_doc])"
  using initialize_idempotent [OF demo_initialize, of demo_externals
      "demo_fs [Dir ''general'' [File ''vitals.txt'']] (Some [general_doc])"]
    initialize_idempotent [OF demo_initialize, of hostile_externals
      "demo_fs [File ''broken.pdf''] None"]
    demo_initialize
  by simp

section \<open>Ingestion\<close>

lemma load_files_propagates:
  assumes "file \<in> set files" and "select_loader file = Some ldr"
    and "loader_load ext ldr = Inl e"
  shows "\<exists>e'. load_files ext files docs = Inl e'"
  using assms
proof (induction files arbitrary: docs)
  case Nil
  then show ?case by simp
next
  case (Cons f files)
  show ?case
  proof (cases "f = file")
    case True
    with Cons.prems show ?thesis by simp
  next
    case False
    with Cons.prems have "file \<in> set files" by simp
    from Cons.IH [OF this Cons.prems(2) Cons.prems(3)]
    show ?thesis by (auto split: option.split sum.split)
  qed
qed

text \<open>
  C8, as amended. During corpus ingestion a failure to load any single selected file is
  not caught: when no index is persisted and some \<open>.pdf\<close> or \<open>.txt\<close> entry below the
  guideline directory fails to load, \<open>initialize\<close> leaves with an exception, no vector
  store is set, nothing is persisted and the service stays uninitialized.
\<close>

theorem ingestion_failure_aborts:
  assumes "persisted_index fs = None" and "\<not> initialized s" and "rag_available s"
    and "new_embeddings ext ''sentence-transformers/all-MiniLM-L6-v2'' ''cpu'' = Inr emb"
    and "tree = (case guidelines_tree fs of None \<Rightarrow> [] | Some t \<Rightarrow> t)"
    and "file \<in> set (rglob (guidelines_dir s) tree)"
    and "select_loader file = Some ldr" and "loader_load ext ldr = Inl e"
  shows "\<exists>e'. initialize ext fs s =
           (Inl e', fs\<lparr>guidelines_tree := Some tree\<rparr>, s\<lparr>embeddings := Some emb\<rparr>)"
proof -
  obtain e' where "load_files ext (rglob (guidelines_dir s) tree) [] = Inl e'"
    using load_files_propagates [OF assms(6) assms(7) assms(8)] by blast
  with assms(1-5) show ?thesis
    by (simp add: initialize_def load_guidelines_def Let_def)
qed

theorem ingestion_failure_aborts_witness:
  "\<exists>e'. initialize demo_externals (demo_fs [File ''broken.pdf'', File ''ok.txt''] None)
          (init_service True) =
     (Inl e', demo_fs [File ''broken.pdf'', File ''ok.txt''] None,
      (init_service True)\<lparr>embeddings := Some demo_embeddings\<rparr>)"
proof -
  let ?fs = "demo_fs [File ''broken.pdf'', File ''ok.txt''] None"
  have h1: "persisted_index ?fs = None" by (simp add: demo_fs_def)
  have h2: "\<not> initialized (init_service True)" by (simp add: fresh_service_flags)
  have h3: "rag_available (init_service True)" by (simp add: fresh_service_flags)
  have h5: "[File ''broken.pdf'', File ''ok.txt''] =
      (case guidelines_tree ?fs of None \<Rightarrow> [] | Some t \<Rightarrow> t)"
    by (simp add: demo_fs_def)
  have h6: "''data/guidelines/broken.pdf'' \<in>
     set (rglob (guidelines_dir (init_service True)) [File ''broken.pdf'', File ''ok.txt''])"
    by (simp add: init_service_def os_path_join_def endswith_def node_name_def)
  have h7: "select_loader ''data/guidelines/broken.pdf'' =
      Some (PyPDFLoader ''data/guidelines/broken.pdf'')"
    by (simp add: path_defs)
  have h8: "loader_load demo_externals (PyPDFLoader ''data/guidelines/broken.pdf'') =
      Inl (Exception ''malformed PDF'')"
    by (simp add: demo_defs path_defs)
  from ingestion_failure_aborts [OF h1 h2 h3 demo_new_embeddings h5 h6 h7 h8]
  show ?thesis by (simp add: demo_fs_def)
qed

text \<open>
  C8 as first stated (a file that fails to parse is skipped and ingestion goes on with
  the remaining files) fails on a directory holding \<open>broken.pdf\<close> and \<open>ok.txt\<close>:
  \<open>ok.txt\<close> loads on its own, yet the build is aborted by the exception of
  \<open>broken.pdf\<close> and nothing is indexed.
\<close>

theorem ingestion_isolation_counterexample:
  "loader_load demo_externals (TextLoader ''data/guidelines/ok.txt'') =
     Inr [\<lparr>page_content = ''check vital signs routinely'',
           metadata = [(''source'', PStr ''data/guidelines/ok.txt'')]\<rparr>] \<and>
   initialize demo_externals (demo_fs [File ''broken.pdf'', File ''ok.txt''] None)
     (init_service True) =
     (Inl (Exception ''malformed PDF''), demo_fs [File ''broken.pdf'', File ''ok.txt''] None,
      (init_service True)\<lparr>embeddings := Some demo_embeddings\<rparr>)"
  using broken_initialize by (simp add: demo_defs)

section \<open>Recommendations\<close>





section \<open>Result entries\<close>

text \<open>
  C9. The claim asks for the string \<open>Unknown\<close> as \<open>source\<close> of an entry whose stored
  metadata has no source file. The code reads \<open>source_file\<close> without a default: for an
  index entry without metadata the result has \<open>None\<close> as source, next to the defaults
  \<open>N/A\<close> for the page and \<open>general\<close> for the specialty.
\<close>

theorem missing_source_is_none:
  "search_guidelines demo_externals (loaded_service [untagged_doc]) ''chest pain'' 3 None =
     Inr [\<lparr>content = ''administer aspirin for chest pain'', source = PNone,
           page = PStr ''N/A'', specialty = PStr ''general''\<rparr>]"
  by (simp add: demo_defs search_guidelines_def search_body_def no_vectorstore_def
        to_guideline_def dict_get_def)

section \<open>Statistics\<close>

lemma endswith_any_pdf_txt:
  "endswith_any f [''.pdf'', ''.txt''] = (endswith f ''.pdf'' \<or> endswith f ''.txt'')"
  by (simp add: endswith_any_def)

text \<open>The loops as one fold over the counted names.\<close>

lemma count_names_foldl:
  "count_names root fs files =
     foldl (\<lambda>acc (sp, f). setdefault_append acc sp f) files
       (map (\<lambda>f. (get_specialty_from_path (os_path_join root f), f))
          (filter (\<lambda>f. endswith f ''.pdf'' \<or> endswith f ''.txt'') fs))"
  by (induction fs arbitrary: files) (simp_all add: endswith_any_pdf_txt)

lemma count_walk_foldl:
  "count_walk walk files =
     foldl (\<lambda>acc (sp, f). setdefault_append acc sp f) files (counted_names walk)"
  by (induction walk arbitrary: files) (auto simp add: counted_names_def count_names_foldl)

text \<open>One insertion.\<close>

lemma keys_setdefault_append:
  "map fst (setdefault_append files sp f) =
     (if sp \<in> set (map fst files) then map fst files else map fst files @ [sp])"
  by (induction files sp f rule: setdefault_append.induct) auto

lemma entries_setdefault_append:
  "entries_of (setdefault_append files sp f) k =
     entries_of files k + (if k = sp then 1 else 0)"
  by (induction files sp f rule: setdefault_append.induct) (auto simp add: entries_of_def)

lemma total_setdefault_append:
  "sum_list (map (\<lambda>(k, v). length v) (setdefault_append files sp f)) =
     Suc (sum_list (map (\<lambda>(k, v). length v) files))"
  by (induction files sp f rule: setdefault_append.induct) auto

text \<open>The fold.\<close>

lemma fold_invariant:
  assumes "distinct (map fst files)"
  shows "distinct (map fst (foldl (\<lambda>acc (sp, f). setdefault_append acc sp f) files es)) \<and>
         set (map fst (foldl (\<lambda>acc (sp, f). setdefault_append acc sp f) files es)) =
           set (map fst files) \<union> fst ` set es \<and>
         (\<forall>k. entries_of (foldl (\<lambda>acc (sp, f). setdefault_append acc sp f) files es) k =
           entries_of files k + length (filter (\<lambda>e. fst e = k) es)) \<and>
         sum_list (map (\<lambda>(k, v). length v)
             (foldl (\<lambda>acc (sp, f). setdefault_append acc sp f) files es)) =
           sum_list (map (\<lambda>(k, v). length v) files) + length es"
  using assms
proof (induction es arbitrary: files)
  case Nil
  then show ?case by simp
next
  case (Cons e es)
  obtain sp f where e: "e = (sp, f)" by (cases e)
  have d: "distinct (map fst (setdefault_append files sp f))"
    using Cons.prems by (simp add: keys_setdefault_append)
  from Cons.IH [OF d] show ?case
    by (auto simp add: e keys_setdefault_append entries_setdefault_append
        total_setdefault_append)
qed

lemma by_specialty_entries:
  assumes "distinct (map fst files)"
  shows "map (\<lambda>(k, v). (k, length v)) files = map (\<lambda>k. (k, entries_of files k)) (map fst files)"
proof -
  have "\<And>k v. (k, v) \<in> set files \<Longrightarrow> entries_of files k = length v"
    using assms by (simp add: entries_of_def)
  then show ?thesis by (auto simp add: comp_def)
qed


lemma statistics_of_counted_names:
  assumes "no_vectorstore ext s = Inr False"
    and "walk = (case guidelines_tree fs of
                   None \<Rightarrow> []
                 | Some tree \<Rightarrow> os_walk (guidelines_dir s) tree)"
  shows "\<exists>specs. get_statistics ext fs s =
           Inr (StatsActive (length (counted_names walk)) specs
                  (map (\<lambda>k. (k, length (filter (\<lambda>e. fst e = k) (counted_names walk)))) specs)) \<and>
           distinct specs \<and> set specs = fst ` set (counted_names walk)"
proof -
  let ?files = "count_walk walk []"
  have inv: "distinct (map fst ?files) \<and>
         set (map fst ?files) = fst ` set (counted_names walk) \<and>
         (\<forall>k. entries_of ?files k = length (filter (\<lambda>e. fst e = k) (counted_names walk))) \<and>
         sum_list (map (\<lambda>(k, v). length v) ?files) = length (counted_names walk)"
    using fold_invariant [of "[]" "counted_names walk"]
    by (simp add: count_walk_foldl entries_of_def)
  then have by_sp: "map (\<lambda>(k, v). (k, length v)) ?files =
      map (\<lambda>k. (k, length (filter (\<lambda>e. fst e = k) (counted_names walk)))) (map fst ?files)"
    using by_specialty_entries [of ?files] by simp
  have "get_statistics ext fs s =
      Inr (StatsActive (sum_list (map (\<lambda>(k, v). length v) ?files)) (map fst ?files)
             (map (\<lambda>(k, v). (k, length v)) ?files))"
    using assms by (simp add: get_statistics_def Let_def)
  with inv by_sp show ?thesis by auto
qed

lemma load_files_selected:
  "load_files ext files acc = Inr docs \<Longrightarrow>
   docs = acc @ concat (map (\<lambda>file.
            case select_loader file of
              None \<Rightarrow> []
            | Some ldr \<Rightarrow>
                (case loader_load ext ldr of
                   Inl e \<Rightarrow> []
                 | Inr ds \<Rightarrow> map (tag_document file) ds)) files)"
proof (induction files arbitrary: acc)
  case Nil
  then show ?case by simp
next
  case (Cons p ps)
  show ?case
  proof (cases "select_loader p")
    case None
    with Cons.prems have "load_files ext ps acc = Inr docs" by simp
    from Cons.IH [OF this] None show ?thesis by simp
  next
    case (Some ldr)
    show ?thesis
    proof (cases "loader_load ext ldr")
      case (Inl e)
      with Some Cons.prems show ?thesis by simp
    next
      case (Inr ds)
      with Some Cons.prems
      have "load_files ext ps (acc @ map (tag_document p) ds) = Inr docs" by simp
      from Cons.IH [OF this] Some Inr show ?thesis by simp
    qed
  qed
qed

lemma singleton_keys:
  assumes "distinct xs" and "set xs = {x}"
  shows "xs = [x]"
proof (cases xs)
  case Nil
  with assms show ?thesis by simp
next
  case (Cons y ys)
  with assms have y: "y = x" by auto
  have "set ys = {}"
  proof (rule ccontr)
    assume "set ys \<noteq> {}"
    then obtain z where z: "z \<in> set ys" by (cases ys) auto
    with assms Cons have "z = x" by auto
    with z y assms(1) Cons show False by simp
  qed
  with Cons y show ?thesis by simp
qed

lemma lower_initialize:
  "initialize demo_externals (demo_fs [File ''guide.txt''] None) (init_service True) =
     (Inr (), demo_fs [File ''guide.txt''] (Some [lower_doc]), loaded_service [lower_doc])"
  by (simp add: initialize_def load_guidelines_def Let_def demo_defs chroma_def path_defs)

lemma upper_statistics:
  "get_statistics demo_externals (demo_fs [File ''GUIDE.TXT''] (Some [upper_doc]))
     (loaded_service [upper_doc]) = Inr (StatsActive 0 [] [])"
  by (simp add: get_statistics_def no_vectorstore_def demo_defs endswith_any_def endswith_def
      Let_def)

text \<open>
  C10. \<open>get_statistics\<close> counts exactly the names met by \<open>os.walk\<close> that end in
  \<open>.pdf\<close> or \<open>.txt\<close> as written, in lower case: the total is their number, the
  specialties are those inferred for them, and each specialty is listed with the number
  of such names under it. The loader selects a file exactly when its lower-cased suffix is
  \<open>.pdf\<close> or \<open>.txt\<close>, and the documents of an ingestion that completes are those of the
  selected files. So a file named \<open>GUIDE.TXT\<close> is given to the text loader and its
  document enters the index, yet the statistics of the same directory count no document
  and list no specialty.
\<close>

theorem statistics_suffix_mismatch:
  assumes "no_vectorstore ext s = Inr False"
    and "walk = (case guidelines_tree fs of
                   None \<Rightarrow> []
                 | Some tree \<Rightarrow> os_walk (guidelines_dir s) tree)"
  shows "(\<exists>specs. get_statistics ext fs s =
            Inr (StatsActive (length (counted_names walk)) specs
                   (map (\<lambda>k. (k, length (filter (\<lambda>e. fst e = k) (counted_names walk)))) specs)) \<and>
            distinct specs \<and> set specs = fst ` set (counted_names walk)) \<and>
         (select_loader file \<noteq> None) =
            (lower (path_suffix file) = ''.pdf'' \<or> lower (path_suffix file) = ''.txt'') \<and>
         (\<forall>docs. load_files ext files [] = Inr docs \<longrightarrow>
            docs = concat (map (\<lambda>file.
                     case select_loader file of
                       None \<Rightarrow> []
                     | Some ldr \<Rightarrow>
                         (case loader_load ext ldr of
                            Inl e \<Rightarrow> []
                          | Inr ds \<Rightarrow> map (tag_document file) ds)) files)) \<and>
         select_loader ''data/guidelines/GUIDE.TXT'' =
            Some (TextLoader ''data/guidelines/GUIDE.TXT'') \<and>
         \<not> endswith_any ''GUIDE.TXT'' [''.pdf'', ''.txt''] \<and>
         initialize demo_externals (demo_fs [File ''GUIDE.TXT''] None) (init_service True) =
           (Inr (), demo_fs [File ''GUIDE.TXT''] (Some [upper_doc]), loaded_service [upper_doc]) \<and>
         get_statistics demo_externals (demo_fs [File ''GUIDE.TXT''] (Some [upper_doc]))
           (loaded_service [upper_doc]) = Inr (StatsActive 0 [] [])"
proof -
  have a: "\<exists>specs. get_statistics ext fs s =
            Inr (StatsActive (length (counted_names walk)) specs
                   (map (\<lambda>k. (k, length (filter (\<lambda>e. fst e = k) (counted_names walk)))) specs)) \<and>
            distinct specs \<and> set specs = fst ` set (counted_names walk)"
    using assms by (rule statistics_of_counted_names)
  have b: "(select_loader file \<noteq> None) =
            (lower (path_suffix file) = ''.pdf'' \<or> lower (path_suffix file) = ''.txt'')"
    by (simp add: select_loader_def)
  have c: "\<forall>docs. load_files ext files [] = Inr docs \<longrightarrow>
            docs = concat (map (\<lambda>file.
                     case select_loader file of
                       None \<Rightarrow> []
                     | Some ldr \<Rightarrow>
                         (case loader_load ext ldr of
                            Inl e \<Rightarrow> []
                          | Inr ds \<Rightarrow> map (tag_document file) ds)) files)"
    using load_files_selected [of ext files "[]"] by simp
  have d: "select_loader ''data/guidelines/GUIDE.TXT'' =
            Some (TextLoader ''data/guidelines/GUIDE.TXT'')"
    by (simp add: path_defs)
  have e: "\<not> endswith_any ''GUIDE.TXT'' [''.pdf'', ''.txt'']"
    by (simp add: endswith_any_def endswith_def)
  from a b c d e upper_initialize upper_statistics show ?thesis
    by - (intro conjI, assumption+)
qed

text \<open>
  The contrast: \<open>guide.txt\<close> is ingested and counted once under \<open>general\<close>;
  \<open>GUIDE.TXT\<close> is ingested and not counted.
\<close>

theorem statistics_suffix_mismatch_witness:
  "initialize demo_externals (demo_fs [File ''guide.txt''] None) (init_service True) =
     (Inr (), demo_fs [File ''guide.txt''] (Some [lower_doc]), loaded_service [lower_doc]) \<and>
   counted_names (os_walk ''data/guidelines'' [File ''guide.txt'']) = [(''general'', ''guide.txt'')] \<and>
   get_statistics demo_externals (demo_fs [File ''guide.txt''] (Some [lower_doc]))
     (loaded_service [lower_doc]) = Inr (StatsActive 1 [''general''] [(''general'', 1)]) \<and>
   initialize demo_externals (demo_fs [File ''GUIDE.TXT''] None) (init_service True) =
     (Inr (), demo_fs [File ''GUIDE.TXT''] (Some [upper_doc]), loaded_service [upper_doc]) \<and>
   counted_names (os_walk ''data/guidelines'' [File ''GUIDE.TXT'']) = [] \<and>
   get_statistics demo_externals (demo_fs [File ''GUIDE.TXT''] (Some [upper_doc]))
     (loaded_service [upper_doc]) = Inr (StatsActive 0 [] [])"
proof -
  let ?fs = "demo_fs [File ''guide.txt''] (Some [lower_doc])"
  let ?s = "loaded_service [lower_doc]"
  have h1: "no_vectorstore demo_externals ?s = Inr False"
    by (simp add: no_vectorstore_def demo_defs)
  have h2: "os_walk ''data/guidelines'' [File ''guide.txt''] =
      (case guidelines_tree ?fs of None \<Rightarrow> [] | Some tree \<Rightarrow> os_walk (guidelines_dir ?s) tree)"
    by (simp add: demo_defs)
  have cn: "counted_names (os_walk ''data/guidelines'' [File ''guide.txt'']) =
      [(''general'', ''guide.txt'')]"
    by (simp add: counted_names_def path_defs)
  have cu: "counted_names (os_walk ''data/guidelines'' [File ''GUIDE.TXT'']) = []"
    by (simp add: counted_names_def endswith_def)
  note inst = statistics_suffix_mismatch [OF h1 h2, of "''data/guidelines/guide.txt''" "[]"]
  from inst [THEN conjunct1] obtain specs where
    st: "get_statistics demo_externals ?fs ?s =
           Inr (StatsActive 1 specs (map (\<lambda>k. (k, length (filter (\<lambda>e. fst e = k)
                  [(''general'', ''guide.txt'')]))) specs))"
    and sp: "distinct specs" "set specs = {''general''}"
    unfolding cn by auto
  from sp have "specs = [''general'']" by (rule singleton_keys)
  with st have "get_statistics demo_externals ?fs ?s =
      Inr (StatsActive 1 [''general''] [(''general'', 1)])" by simp
  moreover note lower_initialize cn cu
    inst [THEN conjunct2, THEN conjunct2, THEN conjunct2, THEN conjunct2, THEN conjunct2]
  ultimately show ?thesis by (intro conjI) simp_all
qed

end
